theory Spec2Isabelle
  imports Main "HOL-Library.Word"
begin

section \<open>The constants of mqtt\_moisture\_reporter.h\<close>

text \<open>
  The header consists of object-like macros only. Each macro becomes a constant of the
  same name. Buffer sizes are array capacities and are kept as natural numbers, the MQTT
  result codes are signed and are kept as integers, string macros are character lists.
\<close>

definition VALID_SETTINGS_FLAG :: nat where
  "VALID_SETTINGS_FLAG = 0xDAB0"

definition SSID_SIZE :: nat where
  "SSID_SIZE = 100"

definition PASSWORD_SIZE :: nat where
  "PASSWORD_SIZE = 50"

definition ADDRESS_SIZE :: nat where
  "ADDRESS_SIZE = 30"

definition USERNAME_SIZE :: nat where
  "USERNAME_SIZE = 50"

definition MQTT_CLIENTID_SIZE :: nat where
  "MQTT_CLIENTID_SIZE = 25"

definition MQTT_TOPIC_SIZE :: nat where
  "MQTT_TOPIC_SIZE = 150"

definition MQTT_TOPIC_MOISTURE :: string where
  "MQTT_TOPIC_MOISTURE = ''percent''"

definition MQTT_TOPIC_READING :: string where
  "MQTT_TOPIC_READING = ''value''"

definition MQTT_TOPIC_PERIOD :: string where
  "MQTT_TOPIC_PERIOD = ''period''"

definition MQTT_CLIENT_ID_ROOT :: string where
  "MQTT_CLIENT_ID_ROOT = ''UltrasonicDetector''"

definition MQTT_TOPIC_COMMAND_REQUEST :: string where
  "MQTT_TOPIC_COMMAND_REQUEST = ''command''"

definition MQTT_PAYLOAD_SETTINGS_COMMAND :: string where
  "MQTT_PAYLOAD_SETTINGS_COMMAND = ''settings''"

definition MQTT_PAYLOAD_RESET_PULSE_COMMAND :: string where
  "MQTT_PAYLOAD_RESET_PULSE_COMMAND = ''resetPulseCounter''"

definition MQTT_PAYLOAD_REBOOT_COMMAND :: string where
  "MQTT_PAYLOAD_REBOOT_COMMAND = ''reboot''"

definition MQTT_PAYLOAD_VERSION_COMMAND :: string where
  "MQTT_PAYLOAD_VERSION_COMMAND = ''version''"

definition MQTT_PAYLOAD_STATUS_COMMAND :: string where
  "MQTT_PAYLOAD_STATUS_COMMAND = ''status''"

text \<open>
  \<^verbatim>\<open>#define JSON_STATUS_SIZE SSID_SIZE+PASSWORD_SIZE+USERNAME_SIZE+MQTT_TOPIC_SIZE+50\<close>
  The replacement list names four size macros and the literal 50; \<^verbatim>\<open>ADDRESS_SIZE\<close>
  and \<^verbatim>\<open>MQTT_CLIENTID_SIZE\<close> do not occur in it. The constant below is the value of the
  macro where it stands alone as an expression (an array bound, an argument).
\<close>

definition JSON_STATUS_SIZE :: nat where
  "JSON_STATUS_SIZE = SSID_SIZE + PASSWORD_SIZE + USERNAME_SIZE + MQTT_TOPIC_SIZE + 50"

definition PUBLISH_DELAY :: nat where
  "PUBLISH_DELAY = 400"

definition MQTT_CONNECTION_REFUSED :: int where
  "MQTT_CONNECTION_REFUSED = - 2"

definition MQTT_CONNECTION_TIMEOUT :: int where
  "MQTT_CONNECTION_TIMEOUT = - 1"

definition MQTT_SUCCESS :: int where
  "MQTT_SUCCESS = 0"

definition MQTT_UNACCEPTABLE_PROTOCOL_VERSION :: int where
  "MQTT_UNACCEPTABLE_PROTOCOL_VERSION = 1"

definition MQTT_IDENTIFIER_REJECTED :: int where
  "MQTT_IDENTIFIER_REJECTED = 2"

definition MQTT_SERVER_UNAVAILABLE :: int where
  "MQTT_SERVER_UNAVAILABLE = 3"

definition MQTT_BAD_USER_NAME_OR_PASSWORD :: int where
  "MQTT_BAD_USER_NAME_OR_PASSWORD = 4"

definition MQTT_NOT_AUTHORIZED :: int where
  "MQTT_NOT_AUTHORIZED = 5"

subsection \<open>Derived tables\<close>

text \<open>
  The five string buffers sized by the header, named after the macro that sizes each, and
  the capacity the header gives to each.
\<close>

datatype field = Ssid | Password | Address | Username | ClientId

fun capacity :: "field \<Rightarrow> nat" where
  "capacity Ssid = SSID_SIZE"
| "capacity Password = PASSWORD_SIZE"
| "capacity Address = ADDRESS_SIZE"
| "capacity Username = USERNAME_SIZE"
| "capacity ClientId = MQTT_CLIENTID_SIZE"

definition all_fields :: "field list" where
  "all_fields = [Ssid, Password, Address, Username, ClientId]"

text \<open>The four topic suffixes, in the order of the header.\<close>

definition topic_suffixes :: "string list" where
  "topic_suffixes =
     [MQTT_TOPIC_MOISTURE, MQTT_TOPIC_READING, MQTT_TOPIC_PERIOD, MQTT_TOPIC_COMMAND_REQUEST]"

text \<open>
  A C string of \<open>n\<close> characters occupies \<open>n + 1\<close> bytes, the last one the terminating NUL.
  \<open>fits cap s\<close> says that \<open>s\<close> with its terminator can be held in a buffer of \<open>cap\<close> bytes.
\<close>

definition fits :: "nat \<Rightarrow> string \<Rightarrow> bool" where
  "fits cap s = (length s + 1 \<le> cap)"

text \<open>A full topic is the device's base topic with one of the suffixes appended.\<close>

definition full_topic :: "string \<Rightarrow> string \<Rightarrow> string" where
  "full_topic base suffix = base @ suffix"

text \<open>The result codes copied from the MQTT library, in the order of the header.\<close>

definition mqtt_codes :: "int list" where
  "mqtt_codes =
     [MQTT_CONNECTION_REFUSED, MQTT_CONNECTION_TIMEOUT, MQTT_SUCCESS,
      MQTT_UNACCEPTABLE_PROTOCOL_VERSION, MQTT_IDENTIFIER_REJECTED,
      MQTT_SERVER_UNAVAILABLE, MQTT_BAD_USER_NAME_OR_PASSWORD, MQTT_NOT_AUTHORIZED]"

definition mqtt_failure_codes :: "int list" where
  "mqtt_failure_codes = filter (\<lambda>c. c \<noteq> MQTT_SUCCESS) mqtt_codes"

section \<open>The firmware core described by the specification\<close>

text \<open>
  The header holds constants only. The settings store, the command router and their data
  are described by the specification; the definitions of this section follow its words
  and use the constants of the header wherever it names them.
\<close>

subsection \<open>C strings in fixed-size buffers\<close>

definition NUL :: char where
  "NUL = CHR 0x00"

text \<open>A character list is a C string when it has no embedded terminator.\<close>

definition cstring :: "string \<Rightarrow> bool" where
  "cstring s = (NUL \<notin> set s)"

text \<open>The string held by a buffer: its bytes up to the first NUL.\<close>

definition cstr :: "string \<Rightarrow> string" where
  "cstr buf = takeWhile (\<lambda>c. c \<noteq> NUL) buf"

text \<open>
  Modelled from the spec: the truncation of a string field to its bound (the store's code
  is not in src). A field of capacity \<open>cap\<close> is "null-terminated within its bound", so at
  most \<open>cap - 1\<close> characters are kept.
\<close>

definition truncate_field :: "nat \<Rightarrow> string \<Rightarrow> string" where
  "truncate_field cap s = take (cap - 1) s"

text \<open>
  Modelled from the spec: writing a string field into its buffer of the fixed-size record
  (the store's code is not in src). The string is truncated to the bound and the rest of
  the buffer is filled with NUL, so the buffer always has exactly \<open>cap\<close> bytes.
\<close>

definition write_field :: "nat \<Rightarrow> string \<Rightarrow> string" where
  "write_field cap s =
     truncate_field cap s @ replicate (cap - length (truncate_field cap s)) NUL"

subsection \<open>Settings and the persisted record\<close>

text \<open>
  Modelled from the spec: the Settings record of section 3 (its declaration is not in
  src). The validity marker is the two-byte sentinel.
\<close>

record Settings =
  validityMarker :: "16 word"
  networkName :: string
  networkPassword :: string
  brokerAddress :: string
  brokerUsername :: string
  clientIdentifier :: string
  reportingPeriodSeconds :: nat

text \<open>
  Modelled from the spec: the persisted record of section 6 (its declaration is not in
  src), a fixed-size structure of one buffer per string field, the period and the
  two-byte marker.
\<close>

record Stored =
  st_ssid :: string
  st_password :: string
  st_address :: string
  st_username :: string
  st_clientid :: string
  st_period :: nat
  st_marker :: "16 word"

text \<open>
  Modelled from the spec: the StorageError of section 7 (not in src). A failed read
  degrades to the defaults inside \<open>load\<close>, so only the write failure is a value.
\<close>

datatype StorageError = WriteFailure

text \<open>
  Modelled from the spec: the sentinel of the header as the two-byte value that is stored
  (the declaration of the marker field is not in src).
\<close>

definition marker_word :: "16 word" where
  "marker_word = of_nat VALID_SETTINGS_FLAG"

text \<open>
  Modelled from the spec: the validity test of \<open>load\<close> (not in src): the marker of the
  persisted record matches the expected sentinel.
\<close>

definition stored_valid :: "Stored \<Rightarrow> bool" where
  "stored_valid st = (st_marker st = marker_word)"

text \<open>
  Modelled from the spec: reading the fields back out of a persisted record (not in src).
\<close>

definition decode :: "Stored \<Rightarrow> Settings" where
  "decode st =
     \<lparr> validityMarker = st_marker st,
       networkName = cstr (st_ssid st),
       networkPassword = cstr (st_password st),
       brokerAddress = cstr (st_address st),
       brokerUsername = cstr (st_username st),
       clientIdentifier = cstr (st_clientid st),
       reportingPeriodSeconds = st_period st \<rparr>"

text \<open>
  Modelled from the spec: \<open>load()\<close> of section 4.1 (not in src). The first argument is the
  record of compile-time defaults, the second what the platform's block read delivered,
  \<open>None\<close> for a read error. A read error and a mismatched marker both give the defaults.
\<close>

definition load :: "Settings \<Rightarrow> Stored option \<Rightarrow> Settings" where
  "load defaults r =
     (case r of
        None \<Rightarrow> defaults
      | Some st \<Rightarrow> if stored_valid st then decode st else defaults)"

text \<open>
  Modelled from the spec: the writes of \<open>save\<close> (not in src): every field, each string
  truncated to its bound, and the validity marker last.
\<close>

definition write_settings :: "Settings \<Rightarrow> Stored \<Rightarrow> Stored" where
  "write_settings s st =
     (let st1 = st\<lparr>st_ssid := write_field SSID_SIZE (networkName s)\<rparr>;
          st2 = st1\<lparr>st_password := write_field PASSWORD_SIZE (networkPassword s)\<rparr>;
          st3 = st2\<lparr>st_address := write_field ADDRESS_SIZE (brokerAddress s)\<rparr>;
          st4 = st3\<lparr>st_username := write_field USERNAME_SIZE (brokerUsername s)\<rparr>;
          st5 = st4\<lparr>st_clientid := write_field MQTT_CLIENTID_SIZE (clientIdentifier s)\<rparr>;
          st6 = st5\<lparr>st_period := reportingPeriodSeconds s\<rparr>
      in st6\<lparr>st_marker := marker_word\<rparr>)"

text \<open>
  Modelled from the spec: \<open>save(Settings)\<close> of section 4.1 (not in src). The first
  argument says whether the platform's block write succeeds; the result is the storage
  error or the record now in storage.
\<close>

definition save :: "bool \<Rightarrow> Settings \<Rightarrow> Stored \<Rightarrow> StorageError + Stored" where
  "save write_ok s st = (if write_ok then Inr (write_settings s st) else Inl WriteFailure)"

text \<open>
  What the specification expects back from a load after a save: the settings with each
  string field truncated to its bound and the marker present.
\<close>

definition truncated :: "Settings \<Rightarrow> Settings" where
  "truncated s =
     \<lparr> validityMarker = marker_word,
       networkName = truncate_field SSID_SIZE (networkName s),
       networkPassword = truncate_field PASSWORD_SIZE (networkPassword s),
       brokerAddress = truncate_field ADDRESS_SIZE (brokerAddress s),
       brokerUsername = truncate_field USERNAME_SIZE (brokerUsername s),
       clientIdentifier = truncate_field MQTT_CLIENTID_SIZE (clientIdentifier s),
       reportingPeriodSeconds = reportingPeriodSeconds s \<rparr>"

definition cstring_fields :: "Settings \<Rightarrow> bool" where
  "cstring_fields s =
     (cstring (networkName s) \<and> cstring (networkPassword s) \<and> cstring (brokerAddress s) \<and>
      cstring (brokerUsername s) \<and> cstring (clientIdentifier s))"

text \<open>
  Modelled from the spec: the default client identifier (the code that builds it is not in
  src), the root name of the header followed by a per-device suffix.
\<close>

definition default_client_id :: "string \<Rightarrow> string" where
  "default_client_id suffix = MQTT_CLIENT_ID_ROOT @ suffix"

subsection \<open>The command router\<close>

text \<open>Modelled from the spec: the Command value of section 3 (not in src).\<close>

datatype Command =
  ShowSettings | ResetCounter | Reboot | ShowVersion | ShowStatus | Unknown string

text \<open>
  Modelled from the spec: the classification of a command payload (not in src), an exact,
  case-sensitive comparison with the five payload strings of the header.
\<close>

definition parse_command :: "string \<Rightarrow> Command" where
  "parse_command p =
     (if p = MQTT_PAYLOAD_SETTINGS_COMMAND then ShowSettings
      else if p = MQTT_PAYLOAD_RESET_PULSE_COMMAND then ResetCounter
      else if p = MQTT_PAYLOAD_REBOOT_COMMAND then Reboot
      else if p = MQTT_PAYLOAD_VERSION_COMMAND then ShowVersion
      else if p = MQTT_PAYLOAD_STATUS_COMMAND then ShowStatus
      else Unknown p)"

text \<open>The five command payload strings of the header, in its order.\<close>

definition recognized_payloads :: "string list" where
  "recognized_payloads =
     [MQTT_PAYLOAD_SETTINGS_COMMAND, MQTT_PAYLOAD_RESET_PULSE_COMMAND,
      MQTT_PAYLOAD_REBOOT_COMMAND, MQTT_PAYLOAD_VERSION_COMMAND, MQTT_PAYLOAD_STATUS_COMMAND]"

text \<open>
  Modelled from the spec: the in-memory ReportingState of section 3 and the state of the
  device the router acts on (not in src).
\<close>

record ReportingState =
  lastReading :: nat
  lastPublish :: nat
  pulseCount :: nat

record Device =
  dev_settings :: Settings
  dev_report :: ReportingState

text \<open>
  Modelled from the spec: the reporting state after a restart (not in src): it is
  in-memory only and reset on reboot.
\<close>

definition cold_report :: ReportingState where
  "cold_report = \<lparr> lastReading = 0, lastPublish = 0, pulseCount = 0 \<rparr>"

text \<open>
  Modelled from the spec: what the router does to the outside (not in src): it publishes a
  response, waits, or restarts the device. The responses are those of the table of
  section 4.2.
\<close>

datatype Response =
  SettingsDocument Settings
| Acknowledgement
| VersionString string
| StatusDocument nat nat
| UnknownNotice string

datatype Event = Publish Response | Delay nat | Restart

text \<open>
  Modelled from the spec: a publish of the router (not in src), followed by the settle
  delay of the header.
\<close>

definition publish :: "Response \<Rightarrow> Event list" where
  "publish r = [Publish r, Delay PUBLISH_DELAY]"

text \<open>
  Modelled from the spec: the dispatch table of section 4.2 (not in src). \<open>notify\<close> says
  whether the optional notice for an unknown command is published, \<open>version\<close> is the
  compiled firmware version string. A reboot resets the in-memory reporting state.
\<close>

fun route :: "bool \<Rightarrow> string \<Rightarrow> Command \<Rightarrow> Device \<Rightarrow> Device \<times> Event list" where
  "route notify version ShowSettings d = (d, publish (SettingsDocument (dev_settings d)))"
| "route notify version ResetCounter d =
     (d\<lparr>dev_report := (dev_report d)\<lparr>pulseCount := 0\<rparr>\<rparr>, publish Acknowledgement)"
| "route notify version Reboot d = (d\<lparr>dev_report := cold_report\<rparr>, [Restart])"
| "route notify version ShowVersion d = (d, publish (VersionString version))"
| "route notify version ShowStatus d =
     (d, publish (StatusDocument (lastReading (dev_report d))
                    (reportingPeriodSeconds (dev_settings d))))"
| "route notify version (Unknown p) d =
     (d, if notify then publish (UnknownNotice p) else [])"

text \<open>
  Modelled from the spec: the receipt of a payload on the command topic (not in src):
  the payload is classified and the command dispatched.
\<close>

definition handle_payload :: "bool \<Rightarrow> string \<Rightarrow> string \<Rightarrow> Device \<Rightarrow> Device \<times> Event list" where
  "handle_payload notify version p d = route notify version (parse_command p) d"

text \<open>
  Modelled from the spec: the control loop of section 5 restricted to the command topic
  (not in src): the payloads are handled one after the other, the events accumulate.
\<close>

fun run_commands :: "bool \<Rightarrow> string \<Rightarrow> string list \<Rightarrow> Device \<Rightarrow> Device \<times> Event list" where
  "run_commands notify version [] d = (d, [])"
| "run_commands notify version (p # ps) d =
     (case handle_payload notify version p d of
        (d', es) \<Rightarrow> (case run_commands notify version ps d' of
                      (d'', es') \<Rightarrow> (d'', es @ es')))"

text \<open>
  Every publish of an event sequence is directly followed by a delay of exactly
  \<^verbatim>\<open>PUBLISH_DELAY\<close> milliseconds, so that nothing else happens in between.
\<close>

fun settled :: "Event list \<Rightarrow> bool" where
  "settled [] = True"
| "settled (Publish r # Delay ms # es) = (ms = PUBLISH_DELAY \<and> settled es)"
| "settled (Publish r # es) = False"
| "settled (e # es) = settled es"

subsection \<open>Concrete inputs\<close>

text \<open>
  Values on which the statements below are instantiated: a blank storage block (all
  bytes zero), a record of defaults for a device with suffix \<open>12AB\<close>, settings whose
  client identifier exceeds its bound, and a device holding them.
\<close>

definition blank_storage :: Stored where
  "blank_storage =
     \<lparr> st_ssid = replicate SSID_SIZE NUL,
       st_password = replicate PASSWORD_SIZE NUL,
       st_address = replicate ADDRESS_SIZE NUL,
       st_username = replicate USERNAME_SIZE NUL,
       st_clientid = replicate MQTT_CLIENTID_SIZE NUL,
       st_period = 0,
       st_marker = 0 \<rparr>"

definition example_defaults :: Settings where
  "example_defaults =
     \<lparr> validityMarker = 0,
       networkName = [],
       networkPassword = [],
       brokerAddress = [],
       brokerUsername = [],
       clientIdentifier = default_client_id ''12AB'',
       reportingPeriodSeconds = 60 \<rparr>"

definition example_settings :: Settings where
  "example_settings =
     \<lparr> validityMarker = 0,
       networkName = ''home'',
       networkPassword = ''secret'',
       brokerAddress = ''10.0.0.2'',
       brokerUsername = ''garden'',
       clientIdentifier = ''UltrasonicDetector12345678'',
       reportingPeriodSeconds = 30 \<rparr>"

definition example_device :: Device where
  "example_device =
     \<lparr> dev_settings = example_settings,
       dev_report = \<lparr> lastReading = 512, lastPublish = 7, pulseCount = 3 \<rparr> \<rparr>"

section \<open>Auxiliary facts\<close>

lemmas size_defs =
  SSID_SIZE_def PASSWORD_SIZE_def ADDRESS_SIZE_def USERNAME_SIZE_def
  MQTT_CLIENTID_SIZE_def MQTT_TOPIC_SIZE_def

lemmas topic_defs =
  MQTT_TOPIC_MOISTURE_def MQTT_TOPIC_READING_def MQTT_TOPIC_PERIOD_def
  MQTT_TOPIC_COMMAND_REQUEST_def

lemmas payload_defs =
  MQTT_PAYLOAD_SETTINGS_COMMAND_def MQTT_PAYLOAD_RESET_PULSE_COMMAND_def
  MQTT_PAYLOAD_REBOOT_COMMAND_def MQTT_PAYLOAD_VERSION_COMMAND_def
  MQTT_PAYLOAD_STATUS_COMMAND_def

lemmas mqtt_code_defs =
  MQTT_CONNECTION_REFUSED_def MQTT_CONNECTION_TIMEOUT_def MQTT_SUCCESS_def
  MQTT_UNACCEPTABLE_PROTOCOL_VERSION_def MQTT_IDENTIFIER_REJECTED_def
  MQTT_SERVER_UNAVAILABLE_def MQTT_BAD_USER_NAME_OR_PASSWORD_def MQTT_NOT_AUTHORIZED_def

subsection \<open>Buffers\<close>

lemma marker_word_value: "marker_word = 0xDAB0"
  by (simp add: marker_word_def VALID_SETTINGS_FLAG_def)

lemma length_truncate_field: "length (truncate_field cap s) = min (length s) (cap - 1)"
  by (simp add: truncate_field_def)

lemma length_write_field: "length (write_field cap s) = cap"
  by (simp add: write_field_def length_truncate_field)

lemma cstring_truncate_field: "cstring s \<Longrightarrow> cstring (truncate_field cap s)"
  by (auto simp add: cstring_def truncate_field_def dest: in_set_takeD)

lemma cstr_padded: "cstring b \<Longrightarrow> cstr (b @ replicate n NUL) = b"
proof -
  assume b: "cstring b"
  have tail: "takeWhile (\<lambda>c. c \<noteq> NUL) (replicate n NUL) = []"
    by (cases n) simp_all
  have "\<And>x. x \<in> set b \<Longrightarrow> x \<noteq> NUL"
    using b by (auto simp add: cstring_def)
  then have "takeWhile (\<lambda>c. c \<noteq> NUL) (b @ replicate n NUL)
               = b @ takeWhile (\<lambda>c. c \<noteq> NUL) (replicate n NUL)"
    by (rule takeWhile_append2)
  with tail show ?thesis
    by (simp add: cstr_def)
qed

lemma cstr_write_field: "cstring s \<Longrightarrow> cstr (write_field cap s) = truncate_field cap s"
  unfolding write_field_def by (rule cstr_padded) (rule cstring_truncate_field)

lemma write_settings_eq:
  "write_settings s st =
     \<lparr> st_ssid = write_field SSID_SIZE (networkName s),
       st_password = write_field PASSWORD_SIZE (networkPassword s),
       st_address = write_field ADDRESS_SIZE (brokerAddress s),
       st_username = write_field USERNAME_SIZE (brokerUsername s),
       st_clientid = write_field MQTT_CLIENTID_SIZE (clientIdentifier s),
       st_period = reportingPeriodSeconds s,
       st_marker = marker_word \<rparr>"
  by (simp add: write_settings_def Let_def)

lemma decode_write_settings:
  "cstring_fields s \<Longrightarrow> decode (write_settings s st) = truncated s"
  by (simp add: write_settings_eq decode_def truncated_def cstring_fields_def cstr_write_field)

lemma load_invalid: "\<not> stored_valid st \<Longrightarrow> load d (Some st) = d"
  by (simp add: load_def)

subsection \<open>Router\<close>

lemma parse_command_cases:
  "parse_command p =
     (if p = ''settings'' then ShowSettings
      else if p = ''resetPulseCounter'' then ResetCounter
      else if p = ''reboot'' then Reboot
      else if p = ''version'' then ShowVersion
      else if p = ''status'' then ShowStatus
      else Unknown p)"
  by (simp add: parse_command_def payload_defs)

lemma parse_command_Unknown_iff:
  "(parse_command p = Unknown q) = (p = q \<and> p \<notin> set recognized_payloads)"
  by (auto simp add: parse_command_def recognized_payloads_def)

lemma settled_publish: "settled (publish r @ es) = settled es"
  by (simp add: publish_def)

lemma settled_append: "settled xs \<Longrightarrow> settled ys \<Longrightarrow> settled (xs @ ys)"
  by (induction xs rule: settled.induct) simp_all

lemma settled_route: "settled (snd (route notify version c d))"
  by (cases c) (simp_all add: publish_def)

lemma settled_handle_payload: "settled (snd (handle_payload notify version p d))"
  by (simp add: handle_payload_def settled_route)

lemma settled_run_commands: "settled (snd (run_commands notify version ps d))"
proof (induction ps arbitrary: d)
  case Nil
  then show ?case by simp
next
  case (Cons p ps)
  obtain d' es where h: "handle_payload notify version p d = (d', es)"
    by (cases "handle_payload notify version p d")
  obtain d'' es' where r: "run_commands notify version ps d' = (d'', es')"
    by (cases "run_commands notify version ps d'")
  have "settled es"
    using settled_handle_payload [of notify version p d] h by simp
  moreover have "settled es'"
    using Cons.IH [of d'] r by simp
  ultimately show ?case
    using h r by (simp add: settled_append)
qed

section \<open>Properties of the constants\<close>

text \<open>
  C1 (as stated): the status document capacity \<^verbatim>\<open>JSON_STATUS_SIZE\<close> is the sum of the five
  Settings field capacities (100, 50, 30, 50, 25) plus 50, that is 305. The header computes
  something else: the sum below is not the value of the macro, and the value is not 305.
\<close>

theorem JSON_STATUS_SIZE_not_305:
  "JSON_STATUS_SIZE \<noteq> 305 \<and>
   JSON_STATUS_SIZE \<noteq>
     SSID_SIZE + PASSWORD_SIZE + ADDRESS_SIZE + USERNAME_SIZE + MQTT_CLIENTID_SIZE + 50 \<and>
   SSID_SIZE + PASSWORD_SIZE + ADDRESS_SIZE + USERNAME_SIZE + MQTT_CLIENTID_SIZE + 50 = 305"
  by (simp add: JSON_STATUS_SIZE_def size_defs)

text \<open>
  C1 (amended): \<^verbatim>\<open>JSON_STATUS_SIZE\<close> is the sum of the SSID, password and username
  capacities and of the topic capacity (100, 50, 50, 150) plus 50 bytes for field names,
  that is 400 bytes; the broker address and client identifier capacities are not part of it.
\<close>

theorem JSON_STATUS_SIZE_value:
  "JSON_STATUS_SIZE = capacity Ssid + capacity Password + capacity Username + MQTT_TOPIC_SIZE + 50 \<and>
   JSON_STATUS_SIZE = 100 + 50 + 50 + 150 + 50 \<and>
   JSON_STATUS_SIZE = 400"
  by (simp add: JSON_STATUS_SIZE_def size_defs)

text \<open>
  C2: the capacities of the bounded string fields are exactly SSID 100, password 50,
  broker address 30, username 50 and client identifier 25 bytes.
\<close>

theorem field_capacities:
  "capacity Ssid = 100 \<and> capacity Password = 50 \<and> capacity Address = 30 \<and>
   capacity Username = 50 \<and> capacity ClientId = 25 \<and>
   map capacity all_fields = [100, 50, 30, 50, 25]"
  by (simp add: all_fields_def size_defs)

text \<open>
  C5: the topic suffixes are exactly \<open>percent\<close> (the moisture percentage), \<open>value\<close> (the raw
  reading), \<open>period\<close> (the reporting period) and \<open>command\<close> (the command request topic); a
  full topic is the base topic followed by the suffix.
\<close>

theorem topic_suffix_strings:
  "MQTT_TOPIC_MOISTURE = ''percent'' \<and> MQTT_TOPIC_READING = ''value'' \<and>
   MQTT_TOPIC_PERIOD = ''period'' \<and> MQTT_TOPIC_COMMAND_REQUEST = ''command'' \<and>
   topic_suffixes = [''percent'', ''value'', ''period'', ''command''] \<and>
   map (full_topic base) topic_suffixes =
     [base @ ''percent'', base @ ''value'', base @ ''period'', base @ ''command'']"
  by (simp add: topic_suffixes_def topic_defs full_topic_def)

text \<open>
  C7: the result codes are exactly eight, pairwise distinct, with the values
  -2, -1, 0, 1, 2, 3, 4, 5 in the order refused, timeout, success, unacceptable protocol
  version, identifier rejected, server unavailable, bad user name or password, not
  authorized; success is 0 and each of the seven others is nonzero.
\<close>

theorem mqtt_code_taxonomy:
  "mqtt_codes = [- 2, - 1, 0, 1, 2, 3, 4, 5] \<and>
   length mqtt_codes = 8 \<and> distinct mqtt_codes \<and>
   MQTT_CONNECTION_REFUSED = - 2 \<and> MQTT_CONNECTION_TIMEOUT = - 1 \<and> MQTT_SUCCESS = 0 \<and>
   MQTT_UNACCEPTABLE_PROTOCOL_VERSION = 1 \<and> MQTT_IDENTIFIER_REJECTED = 2 \<and>
   MQTT_SERVER_UNAVAILABLE = 3 \<and> MQTT_BAD_USER_NAME_OR_PASSWORD = 4 \<and>
   MQTT_NOT_AUTHORIZED = 5 \<and>
   mqtt_failure_codes = [- 2, - 1, 1, 2, 3, 4, 5] \<and>
   0 \<notin> set mqtt_failure_codes"
  by (simp add: mqtt_codes_def mqtt_failure_codes_def mqtt_code_defs)

text \<open>
  C10: the topic capacity \<^verbatim>\<open>MQTT_TOPIC_SIZE\<close> is 150 bytes; the four suffixes have 7, 5, 6
  and 7 characters, the longest 7, and each of them fits the capacity together with its
  terminating NUL. A full topic fits exactly when the base topic leaves room for the suffix
  and the terminator.
\<close>

theorem topic_suffixes_fit:
  "MQTT_TOPIC_SIZE = 150 \<and>
   map length topic_suffixes = [7, 5, 6, 7] \<and>
   Max (set (map length topic_suffixes)) = 7 \<and>
   fits MQTT_TOPIC_SIZE MQTT_TOPIC_MOISTURE \<and> fits MQTT_TOPIC_SIZE MQTT_TOPIC_READING \<and>
   fits MQTT_TOPIC_SIZE MQTT_TOPIC_PERIOD \<and> fits MQTT_TOPIC_SIZE MQTT_TOPIC_COMMAND_REQUEST \<and>
   fits MQTT_TOPIC_SIZE (full_topic base MQTT_TOPIC_MOISTURE) = (length base \<le> 142) \<and>
   fits MQTT_TOPIC_SIZE (full_topic base MQTT_TOPIC_READING) = (length base \<le> 144) \<and>
   fits MQTT_TOPIC_SIZE (full_topic base MQTT_TOPIC_PERIOD) = (length base \<le> 143) \<and>
   fits MQTT_TOPIC_SIZE (full_topic base MQTT_TOPIC_COMMAND_REQUEST) = (length base \<le> 142)"
  by (auto simp add: topic_suffixes_def topic_defs fits_def full_topic_def MQTT_TOPIC_SIZE_def)

section \<open>Properties of the settings store and the command router\<close>

text \<open>
  C3: the validity marker is the fixed sentinel 0xDAB0; the sentinel fits in two bytes
  (it is at most 0xFFFF, and the two-byte word that is stored reads back as the same
  number); \<open>load\<close> treats a persisted record as valid exactly when its marker equals this
  value, returning the stored fields then and the defaults otherwise.
\<close>

theorem validity_marker_sentinel:
  "VALID_SETTINGS_FLAG = 0xDAB0 \<and>
   VALID_SETTINGS_FLAG \<le> 0xFFFF \<and>
   unat marker_word = VALID_SETTINGS_FLAG \<and>
   stored_valid st = (st_marker st = 0xDAB0) \<and>
   load d (Some st) = (if st_marker st = 0xDAB0 then decode st else d)"
  by (simp add: VALID_SETTINGS_FLAG_def marker_word_def stored_valid_def load_def)

text \<open>
  C4: the recognized command payloads are exactly the five strings \<open>settings\<close>,
  \<open>resetPulseCounter\<close>, \<open>reboot\<close>, \<open>version\<close> and \<open>status\<close>, compared exactly; each is
  classified as its own command, and a payload is classified Unknown exactly when it is
  none of the five. A payload that is none of the five leaves the device state as it was
  and causes no restart: the only thing that may happen is the optional notice.
\<close>

theorem unknown_payload_no_action:
  assumes "p \<notin> set recognized_payloads"
  shows "recognized_payloads =
           [''settings'', ''resetPulseCounter'', ''reboot'', ''version'', ''status''] \<and>
         map parse_command recognized_payloads =
           [ShowSettings, ResetCounter, Reboot, ShowVersion, ShowStatus] \<and>
         (parse_command q = Unknown q) = (q \<notin> set recognized_payloads) \<and>
         parse_command p = Unknown p \<and>
         handle_payload notify version p d =
           (d, if notify then publish (UnknownNotice p) else []) \<and>
         fst (handle_payload notify version p d) = d \<and>
         Restart \<notin> set (snd (handle_payload notify version p d))"
proof -
  have names: "recognized_payloads =
      [''settings'', ''resetPulseCounter'', ''reboot'', ''version'', ''status'']"
    by (simp add: recognized_payloads_def payload_defs)
  have classes: "map parse_command recognized_payloads =
      [ShowSettings, ResetCounter, Reboot, ShowVersion, ShowStatus]"
    by (simp add: names parse_command_cases)
  have unknown: "(parse_command q = Unknown q) = (q \<notin> set recognized_payloads)"
    by (simp add: parse_command_Unknown_iff)
  have p: "parse_command p = Unknown p"
    using assms by (simp add: parse_command_Unknown_iff)
  have h: "handle_payload notify version p d =
      (d, if notify then publish (UnknownNotice p) else [])"
    by (simp add: handle_payload_def p)
  have quiet: "Restart \<notin> set (snd (handle_payload notify version p d))"
    by (simp add: h publish_def)
  from names classes unknown p h quiet show ?thesis
    by simp
qed

theorem unknown_payload_no_action_witness:
  "''Reboot'' \<notin> set recognized_payloads \<and>
   parse_command ''Reboot'' = Unknown ''Reboot'' \<and>
   parse_command ''reboot'' = Reboot \<and>
   handle_payload False ''1.0'' ''Reboot'' example_device = (example_device, []) \<and>
   handle_payload True ''1.0'' ''Reboot'' example_device =
     (example_device, [Publish (UnknownNotice ''Reboot''), Delay 400])"
proof -
  have n: "''Reboot'' \<notin> set recognized_payloads"
    by (simp add: recognized_payloads_def payload_defs)
  note quiet = unknown_payload_no_action [OF n, of "''reboot''" False "''1.0''" example_device]
  note noisy = unknown_payload_no_action [OF n, of "''reboot''" True "''1.0''" example_device]
  from quiet have u: "parse_command ''Reboot'' = Unknown ''Reboot''"
    by blast
  have r: "parse_command ''reboot'' = Reboot"
    by (simp add: parse_command_cases)
  from quiet have "handle_payload False ''1.0'' ''Reboot'' example_device =
      (example_device, if False then publish (UnknownNotice ''Reboot'') else [])"
    by blast
  then have q: "handle_payload False ''1.0'' ''Reboot'' example_device = (example_device, [])"
    by (simp only: if_False)
  from noisy have "handle_payload True ''1.0'' ''Reboot'' example_device =
      (example_device, if True then publish (UnknownNotice ''Reboot'') else [])"
    by blast
  then have p: "handle_payload True ''1.0'' ''Reboot'' example_device =
      (example_device, [Publish (UnknownNotice ''Reboot''), Delay 400])"
    by (simp only: if_True publish_def PUBLISH_DELAY_def)
  show ?thesis
    by (intro conjI) (fact n u r q p)+
qed

text \<open>
  C6: the settle delay \<^verbatim>\<open>PUBLISH_DELAY\<close> is 400 milliseconds, and every publish the
  router issues, for one payload or for any sequence of payloads, is directly followed by
  a delay of exactly that length before anything else happens.
\<close>

theorem publish_settle_delay:
  "PUBLISH_DELAY = 400 \<and>
   publish r = [Publish r, Delay 400] \<and>
   settled (snd (route notify version c d)) \<and>
   settled (snd (handle_payload notify version p d)) \<and>
   settled (snd (run_commands notify version ps d))"
  by (simp add: PUBLISH_DELAY_def publish_def settled_route settled_handle_payload
      settled_run_commands)

text \<open>
  C8: the default client identifier is the root \<open>UltrasonicDetector\<close> followed by the
  device's suffix. The root has 18 characters and fits the 25-byte capacity with its
  terminator, which leaves 6 bytes: the identifier fits exactly when the suffix has at
  most 6 characters, and what is stored of it is always bounded to the 25 bytes.
\<close>

theorem default_client_id_bound:
  "MQTT_CLIENT_ID_ROOT = ''UltrasonicDetector'' \<and>
   length MQTT_CLIENT_ID_ROOT = 18 \<and>
   MQTT_CLIENTID_SIZE = 25 \<and>
   fits MQTT_CLIENTID_SIZE MQTT_CLIENT_ID_ROOT \<and>
   MQTT_CLIENTID_SIZE - (length MQTT_CLIENT_ID_ROOT + 1) = 6 \<and>
   take 18 (default_client_id suffix) = MQTT_CLIENT_ID_ROOT \<and>
   drop 18 (default_client_id suffix) = suffix \<and>
   fits MQTT_CLIENTID_SIZE (default_client_id suffix) = (length suffix \<le> 6) \<and>
   fits MQTT_CLIENTID_SIZE (truncate_field MQTT_CLIENTID_SIZE (default_client_id suffix)) \<and>
   length (write_field MQTT_CLIENTID_SIZE (default_client_id suffix)) = 25"
proof -
  have root: "length MQTT_CLIENT_ID_ROOT = 18"
    by (simp add: MQTT_CLIENT_ID_ROOT_def)
  have fit: "fits MQTT_CLIENTID_SIZE (default_client_id suffix) = (length suffix \<le> 6)"
    by (auto simp add: fits_def default_client_id_def root MQTT_CLIENTID_SIZE_def)
  have kept: "fits MQTT_CLIENTID_SIZE
      (truncate_field MQTT_CLIENTID_SIZE (default_client_id suffix))"
    by (simp add: fits_def length_truncate_field MQTT_CLIENTID_SIZE_def)
  have buf: "length (write_field MQTT_CLIENTID_SIZE (default_client_id suffix)) = 25"
    by (simp add: length_write_field MQTT_CLIENTID_SIZE_def)
  show ?thesis
    using fit kept buf
    by (simp add: root default_client_id_def fits_def MQTT_CLIENTID_SIZE_def)
      (simp add: MQTT_CLIENT_ID_ROOT_def)
qed

text \<open>
  C9: for settings whose string fields are C strings, a save whose block write succeeds
  followed by a load returns the settings with each string field truncated to its bound
  (capacity less the terminator) and with the validity marker present, whatever the
  storage held before; and when the marker of the persisted record is absent or
  mismatched, or the read fails, load returns exactly the defaults, whatever else the
  record holds.
\<close>

theorem load_after_save:
  assumes "cstring_fields s"
  shows "save True s st = Inr (write_settings s st) \<and>
         load d (Some (write_settings s st)) = truncated s \<and>
         validityMarker (load d (Some (write_settings s st))) = marker_word \<and>
         (st_marker st' \<noteq> marker_word \<longrightarrow> load d (Some st') = d) \<and>
         load d None = d"
proof -
  have valid: "stored_valid (write_settings s st)"
    by (simp add: stored_valid_def write_settings_eq)
  have roundtrip: "load d (Some (write_settings s st)) = truncated s"
    using assms valid by (simp add: load_def decode_write_settings)
  have marked: "validityMarker (truncated s) = marker_word"
    by (simp add: truncated_def)
  have bad: "st_marker st' \<noteq> marker_word \<longrightarrow> load d (Some st') = d"
    by (simp add: load_invalid stored_valid_def)
  show ?thesis
    using roundtrip marked bad by (simp add: save_def load_def)
qed

theorem load_after_save_witness:
  "cstring_fields example_settings \<and>
   save True example_settings blank_storage =
     Inr (write_settings example_settings blank_storage) \<and>
   load example_defaults (Some (write_settings example_settings blank_storage)) =
     \<lparr> validityMarker = 0xDAB0,
       networkName = ''home'',
       networkPassword = ''secret'',
       brokerAddress = ''10.0.0.2'',
       brokerUsername = ''garden'',
       clientIdentifier = ''UltrasonicDetector123456'',
       reportingPeriodSeconds = 30 \<rparr> \<and>
   st_marker blank_storage \<noteq> marker_word \<and>
   load example_defaults (Some blank_storage) = example_defaults \<and>
   clientIdentifier (load example_defaults (Some blank_storage)) = ''UltrasonicDetector12AB''"
proof -
  have c: "cstring_fields example_settings"
    by (simp add: cstring_fields_def cstring_def example_settings_def NUL_def)
  have m: "st_marker blank_storage \<noteq> marker_word"
    by (simp add: blank_storage_def marker_word_value)
  have t: "truncated example_settings =
     \<lparr> validityMarker = 0xDAB0,
       networkName = ''home'',
       networkPassword = ''secret'',
       brokerAddress = ''10.0.0.2'',
       brokerUsername = ''garden'',
       clientIdentifier = ''UltrasonicDetector123456'',
       reportingPeriodSeconds = 30 \<rparr>"
    by (simp add: truncated_def truncate_field_def example_settings_def size_defs
        marker_word_value)
  have i: "clientIdentifier example_defaults = ''UltrasonicDetector12AB''"
    by (simp add: example_defaults_def default_client_id_def MQTT_CLIENT_ID_ROOT_def)
  note inst = load_after_save [OF c, of blank_storage example_defaults blank_storage]
  from inst have s: "save True example_settings blank_storage =
      Inr (write_settings example_settings blank_storage)"
    by (rule conjunct1)
  from inst have l: "load example_defaults
      (Some (write_settings example_settings blank_storage)) = truncated example_settings"
    by blast
  from inst m have b: "load example_defaults (Some blank_storage) = example_defaults"
    by blast
  have l': "load example_defaults (Some (write_settings example_settings blank_storage)) =
     \<lparr> validityMarker = 0xDAB0,
       networkName = ''home'',
       networkPassword = ''secret'',
       brokerAddress = ''10.0.0.2'',
       brokerUsername = ''garden'',
       clientIdentifier = ''UltrasonicDetector123456'',
       reportingPeriodSeconds = 30 \<rparr>"
    by (simp only: l t)
  have i': "clientIdentifier (load example_defaults (Some blank_storage)) =
      ''UltrasonicDetector12AB''"
    by (simp only: b i)
  show ?thesis
    by (intro conjI) (fact c s l' m b i')+
qed

end
